theory Spec2Isabelle
  imports Main
begin

section \<open>A shallow embedding of restful.py\<close>

text \<open>
  The script is a command-line HTTP client: \<^verbatim>\<open>main\<close> parses the command line,
  \<^verbatim>\<open>APITester.__init__\<close> performs one request and routes the response, and
  \<^verbatim>\<open>Writer.save\<close> writes the response to a file chosen by extension.

  Everything the script prints, sends or writes is recorded, in order, in a trace of
  events. An exception is a value: a function that can raise returns a sum, with
  \<open>Inl\<close> for the exception. What the libraries compute (argparse, requests, json,
  pandas, pprint) is not part of the script; it is supplied by an environment record, so
  every theorem holds whatever the libraries return.
\<close>

subsection \<open>Exceptions\<close>

text \<open>
  The exception classes that occur. All of them are subclasses of Python's
  \<^verbatim>\<open>Exception\<close>, so \<^verbatim>\<open>except Exception\<close> catches every one;
  \<^verbatim>\<open>except TypeError\<close> catches only the first. \<^verbatim>\<open>SystemExit\<close> is not among them: it
  is raised by the argument parser only and is modelled in \<open>main\<close>.
\<close>

datatype exn =
    TypeError string
  | ValueError string
  | JSONDecodeError string
  | IndexError string
  | RequestException string
  | HTTPError string
  | OSError string
  | Exception string

text \<open>\<^verbatim>\<open>print(e)\<close> prints \<^verbatim>\<open>str(e)\<close>, the message the exception was built with.\<close>

fun str_exn :: "exn \<Rightarrow> string" where
  "str_exn (TypeError m) = m"
| "str_exn (ValueError m) = m"
| "str_exn (JSONDecodeError m) = m"
| "str_exn (IndexError m) = m"
| "str_exn (RequestException m) = m"
| "str_exn (HTTPError m) = m"
| "str_exn (OSError m) = m"
| "str_exn (Exception m) = m"

subsection \<open>Values\<close>

text \<open>What \<^verbatim>\<open>json.loads\<close> returns (floats are kept as their literal).\<close>

datatype json =
    JNull
  | JBool bool
  | JInt int
  | JFloat string
  | JStr string
  | JList "json list"
  | JDict "(string \<times> json) list"

text \<open>A keyword argument value of the \<^verbatim>\<open>to_json\<close> / \<^verbatim>\<open>to_csv\<close> calls.\<close>

datatype param = PStr string | PInt int | PBool bool

text \<open>
  The request descriptor: \<^verbatim>\<open>vars(args)\<close>. argparse admits only the two method names
  (\<^verbatim>\<open>choices=['get', 'post']\<close>); \<^verbatim>\<open>-d\<close> and \<^verbatim>\<open>-o\<close> default to \<^verbatim>\<open>None\<close>.
  The fields \<open>request_method\<close> and \<open>output_path\<close> are the keys \<^verbatim>\<open>method\<close> and
  \<^verbatim>\<open>output\<close>.
\<close>

datatype http_method = Get | Post

record payload =
  request_method :: http_method
  endpoint :: string
  data :: "string option"
  output_path :: "string option"

text \<open>
  The fields of \<^verbatim>\<open>requests.Response\<close> the script and \<^verbatim>\<open>raise_for_status\<close> read;
  \<open>text_body\<close> is the attribute \<^verbatim>\<open>text\<close>.
\<close>

record response =
  status_code :: int
  reason :: string
  url :: string
  text_body :: string

subsection \<open>Effects\<close>

datatype event =
    Print string
  | Usage string
  | RequestsGet string
  | RequestsPost string "(string \<times> json) list"
  | WriteFile string string

text \<open>
  \<open>Print s\<close>: a line on standard output. \<open>Usage s\<close>: what argparse itself printed before
  raising \<^verbatim>\<open>SystemExit\<close>. \<open>RequestsGet u\<close> is \<^verbatim>\<open>requests.get(u)\<close>;
  \<open>RequestsPost u kw\<close> is \<^verbatim>\<open>requests.post(u, **kw)\<close>. \<open>WriteFile p c\<close>: the file \<open>p\<close> was
  written with content \<open>c\<close>.
\<close>

subsection \<open>The libraries\<close>

record 'df env =
  parse_args :: "string list \<Rightarrow> (string \<times> int) + payload"
  requests_get :: "string \<Rightarrow> exn + response"
  requests_post :: "string \<Rightarrow> (string \<times> json) list \<Rightarrow> exn + response"
  raise_for_status :: "response \<Rightarrow> exn option"
  response_json :: "response \<Rightarrow> exn + json"
  pformat :: "json \<Rightarrow> string"
  json_decode :: "string \<Rightarrow> string + json"
  read_json :: "string \<Rightarrow> exn + 'df"
  to_format :: "string \<Rightarrow> 'df \<Rightarrow> string \<Rightarrow> (string \<times> param) list \<Rightarrow> exn + string"

text \<open>
  \<^item> \<open>parse_args argv\<close>: \<^verbatim>\<open>parser.parse_args()\<close>; \<open>Inl (u, c)\<close> when argparse prints \<open>u\<close>
    and raises \<^verbatim>\<open>SystemExit(c)\<close>.
  \<^item> \<open>raise_for_status r\<close>: \<open>Some e\<close> when \<^verbatim>\<open>r.raise_for_status()\<close> raises \<open>e\<close>.
  \<^item> \<open>response_json r\<close>: \<^verbatim>\<open>r.json()\<close>; \<open>pformat\<close>: the text \<^verbatim>\<open>pprint\<close> prints.
  \<^item> \<open>json_decode s\<close>: \<^verbatim>\<open>json.loads(s)\<close> on a string; \<open>Inl m\<close> is a
    \<^verbatim>\<open>JSONDecodeError\<close> with message \<open>m\<close>.
  \<^item> \<open>read_json t\<close>: \<^verbatim>\<open>pd.read_json(StringIO(t))\<close>, a data frame of type \<open>'df\<close>.
  \<^item> \<open>to_format name df path kw\<close>: \<^verbatim>\<open>getattr(df, name)(path, **kw)\<close>; \<open>Inr c\<close> when it
    wrote the content \<open>c\<close> to \<open>path\<close>.
\<close>

subsection \<open>Strings\<close>

text \<open>\<^verbatim>\<open>str(n)\<close> for an integer: decimal digits, a minus sign when negative.\<close>

definition digit_char :: "nat \<Rightarrow> char" where
  "digit_char d = ''0123456789'' ! (d mod 10)"

fun str_nat :: "nat \<Rightarrow> string" where
  "str_nat n = (if n < 10 then [digit_char n] else str_nat (n div 10) @ [digit_char (n mod 10)])"

declare str_nat.simps [simp del]

definition str_int :: "int \<Rightarrow> string" where
  "str_int i = (if i < 0 then CHR ''-'' # str_nat (nat (- i)) else str_nat (nat i))"

definition startswith :: "string \<Rightarrow> string \<Rightarrow> bool" where
  "startswith s p = (take (length p) s = p)"

definition endswith :: "string \<Rightarrow> string \<Rightarrow> bool" where
  "endswith s p = (length p \<le> length s \<and> drop (length s - length p) s = p)"

text \<open>
  \<^verbatim>\<open>s.rsplit('.', 1)\<close>: at most one split, at the last dot; a string with no dot comes
  back whole, as a one-element list.
\<close>

definition rsplit_dot :: "string \<Rightarrow> string list" where
  "rsplit_dot s =
     (if CHR ''.'' \<in> set s
      then [rev (tl (dropWhile (\<lambda>c. c \<noteq> CHR ''.'') (rev s))),
            rev (takeWhile (\<lambda>c. c \<noteq> CHR ''.'') (rev s))]
      else [s])"

subsection \<open>Writer\<close>

definition dump_params :: "(string \<times> (string \<times> param) list) list" where
  "dump_params =
     [(''json'', [(''orient'', PStr ''records''), (''indent'', PInt 2)]),
      (''csv'', [])]"

text \<open>
  \<^verbatim>\<open>Writer.save\<close>. The two-name unpacking of the \<^verbatim>\<open>rsplit\<close> result raises
  \<^verbatim>\<open>ValueError\<close> unless the list has exactly two elements. The notice is not an
  f-string: it is printed with the braces as they stand.
\<close>

definition save :: "'df env \<Rightarrow> string \<Rightarrow> string \<Rightarrow> event list \<times> (exn + unit)" where
  "save E out_file res_text =
     (case read_json E res_text of
        Inl e \<Rightarrow> ([], Inl e)
      | Inr df \<Rightarrow>
          (case rsplit_dot out_file of
             [file_name, ext] \<Rightarrow>
               (case map_of dump_params ext of
                  Some kw \<Rightarrow>
                    (case to_format E (''to_'' @ ext) df (file_name @ ''.'' @ ext)
                            ((''index'', PBool False) # kw) of
                       Inl e \<Rightarrow> ([], Inl e)
                     | Inr content \<Rightarrow> ([WriteFile (file_name @ ''.'' @ ext) content], Inr ()))
                | None \<Rightarrow> ([Print ''not implemented for .{ext}''], Inr ()))
           | _ \<Rightarrow> ([], Inl (ValueError ''not enough values to unpack (expected 2, got 1)''))))"

subsection \<open>APITester\<close>

definition domain :: string where
  "domain = ''https://jsonplaceholder.typicode.com''"

text \<open>\<^verbatim>\<open>APITester.get\<close>: one \<^verbatim>\<open>requests.get\<close>.\<close>

definition get :: "'df env \<Rightarrow> payload \<Rightarrow> string \<Rightarrow> event list \<times> (exn + response)" where
  "get E p u = ([RequestsGet u], requests_get E u)"

text \<open>
  \<^verbatim>\<open>json.loads(self.payload.get('data', None))\<close>: \<^verbatim>\<open>json.loads\<close> raises \<^verbatim>\<open>TypeError\<close>
  on \<^verbatim>\<open>None\<close> before it decodes anything.
\<close>

definition json_loads :: "'df env \<Rightarrow> string option \<Rightarrow> exn + json" where
  "json_loads E d =
     (case d of
        None \<Rightarrow> Inl (TypeError ''the JSON object must be str, bytes or bytearray, not NoneType'')
      | Some s \<Rightarrow> (case json_decode E s of Inl m \<Rightarrow> Inl (JSONDecodeError m) | Inr v \<Rightarrow> Inr v))"

text \<open>
  \<^verbatim>\<open>APITester.post\<close>: only a \<^verbatim>\<open>TypeError\<close> of the decoding is replaced by the script's
  own exception; any other exception passes through.
\<close>

definition post :: "'df env \<Rightarrow> payload \<Rightarrow> string \<Rightarrow> event list \<times> (exn + response)" where
  "post E p u =
     (case json_loads E (data p) of
        Inl (TypeError m) \<Rightarrow> ([], Inl (Exception ''Must required valid json data''))
      | Inl e \<Rightarrow> ([], Inl e)
      | Inr v \<Rightarrow> ([RequestsPost u [(''data'', v)]], requests_post E u [(''data'', v)]))"

text \<open>\<^verbatim>\<open>getattr(self, self.payload['method'])(url)\<close>.\<close>

definition call_method :: "'df env \<Rightarrow> payload \<Rightarrow> string \<Rightarrow> event list \<times> (exn + response)" where
  "call_method E p u = (case request_method p of Get \<Rightarrow> get E p u | Post \<Rightarrow> post E p u)"

text \<open>Lines 114 to 116: the text handed to \<^verbatim>\<open>save\<close>.\<close>

definition res_text :: "response \<Rightarrow> string" where
  "res_text r =
     (if startswith (text_body r) ''{'' \<and> endswith (text_body r) ''}''
      then ''['' @ text_body r @ '']'' else text_body r)"

text \<open>
  \<^verbatim>\<open>APITester.__init__\<close>. The result is the trace and the exception that leaves the
  constructor, if any. The \<^verbatim>\<open>try\<close> covers the request, the status line and
  \<^verbatim>\<open>raise_for_status\<close>; its handler prints the exception and the constructor returns.
  The \<^verbatim>\<open>else\<close> branch is outside the handler: what it raises leaves the constructor.
  \<^verbatim>\<open>if output:\<close> is false for \<^verbatim>\<open>None\<close> and for the empty string.
\<close>

definition init :: "'df env \<Rightarrow> payload \<Rightarrow> event list \<times> exn option" where
  "init E p =
     (let u = domain @ ''/'' @ endpoint p in
      case call_method E p u of
        (t1, Inl e) \<Rightarrow> (t1 @ [Print (str_exn e)], None)
      | (t1, Inr r) \<Rightarrow>
          (let t2 = t1 @ [Print (''status_code: '' @ str_int (status_code r))] in
           case raise_for_status E r of
             Some e \<Rightarrow> (t2 @ [Print (str_exn e)], None)
           | None \<Rightarrow>
               (case str_int (status_code r) of
                  [] \<Rightarrow> (t2, Some (IndexError ''string index out of range''))
                | c # _ \<Rightarrow>
                    if c \<noteq> CHR ''2''
                    then (t2, Some (Exception ''Can't process non-success(2xx) request''))
                    else
                      (case output_path p of
                         None \<Rightarrow>
                           (case response_json E r of
                              Inl e \<Rightarrow> (t2, Some e)
                            | Inr j \<Rightarrow> (t2 @ [Print (pformat E j)], None))
                       | Some out \<Rightarrow>
                           if out = []
                           then (case response_json E r of
                                   Inl e \<Rightarrow> (t2, Some e)
                                 | Inr j \<Rightarrow> (t2 @ [Print (pformat E j)], None))
                           else (case save E out (res_text r) of
                                   (t3, Inl e) \<Rightarrow> (t2 @ t3, Some e)
                                 | (t3, Inr _) \<Rightarrow> (t2 @ t3, None))))))"

subsection \<open>main\<close>

text \<open>
  \<^verbatim>\<open>main\<close>, with the exit status of the process. Both handlers end the function
  normally, and so does the \<^verbatim>\<open>try\<close> body: the interpreter then exits with status 0.
\<close>

definition main :: "'df env \<Rightarrow> string list \<Rightarrow> event list \<times> int" where
  "main E argv =
     (case parse_args E argv of
        Inl (u, c) \<Rightarrow>
          ([Usage u, Print (''ExitCode:'' @ str_int c @ ''    (-h for more info)'')], 0)
      | Inr p \<Rightarrow>
          (case init E p of
             (t, None) \<Rightarrow> (t, 0)
           | (t, Some e) \<Rightarrow> (t @ [Print (str_exn e)], 0)))"

subsection \<open>Canned libraries for concrete runs\<close>

text \<open>
  What \<^verbatim>\<open>requests.Response.raise_for_status\<close> does: it raises \<^verbatim>\<open>HTTPError\<close> for the
  client and server error ranges, and nothing for any other code.
\<close>

definition requests_raise_for_status :: "response \<Rightarrow> exn option" where
  "requests_raise_for_status r =
     (if 400 \<le> status_code r \<and> status_code r < 500
      then Some (HTTPError (str_int (status_code r) @ '' Client Error: '' @ reason r
                              @ '' for url: '' @ url r))
      else if 500 \<le> status_code r \<and> status_code r < 600
      then Some (HTTPError (str_int (status_code r) @ '' Server Error: '' @ reason r
                              @ '' for url: '' @ url r))
      else None)"

text \<open>A decoder that knows two documents and rejects every other string.\<close>

definition canned_json_decode :: "string \<Rightarrow> string + json" where
  \<open>canned_json_decode s =
     (if s = ''{"title": "foo"}'' then Inr (JDict [(''title'', JStr ''foo'')])
      else if s = ''{"id":1,"name":"a"}'' then Inr (JDict [(''id'', JInt 1), (''name'', JStr ''a'')])
      else Inl ''Expecting value: line 1 column 1 (char 0)'')\<close>

definition usage_error :: "string \<times> int" where
  "usage_error = (''usage: restful.py [-h] [-d DATA] [-o OUTPUT] {get,post} endpoint'', 2)"

definition positional :: "string \<Rightarrow> string \<Rightarrow> string option \<Rightarrow> string option \<Rightarrow> (string \<times> int) + payload" where
  "positional m e d out =
     (if m = ''get'' then Inr \<lparr>request_method = Get, endpoint = e, data = d, output_path = out\<rparr>
      else if m = ''post'' then Inr \<lparr>request_method = Post, endpoint = e, data = d, output_path = out\<rparr>
      else Inl usage_error)"

text \<open>A parser for the shortest command lines; argparse exits with status 2 on an error.\<close>

definition canned_parse_args :: "string list \<Rightarrow> (string \<times> int) + payload" where
  "canned_parse_args argv =
     (case argv of
        [m, e] \<Rightarrow> positional m e None None
      | [m, e, f, v] \<Rightarrow>
          (if f = ''-d'' then positional m e (Some v) None
           else if f = ''-o'' then positional m e None (Some v)
           else Inl usage_error)
      | _ \<Rightarrow> Inl usage_error)"

text \<open>
  A server that answers every request with the response \<open>r\<close>. The data frame is stood
  in for by the text it was read from; only a text that opens a JSON array is read.
\<close>

definition canned_env :: "response \<Rightarrow> string env" where
  "canned_env r =
     \<lparr>parse_args = canned_parse_args,
      requests_get = (\<lambda>u. Inr (r\<lparr>url := u\<rparr>)),
      requests_post = (\<lambda>u kw. Inr (r\<lparr>url := u\<rparr>)),
      raise_for_status = requests_raise_for_status,
      response_json = (\<lambda>r. case canned_json_decode (text_body r) of
                               Inl m \<Rightarrow> Inl (JSONDecodeError m) | Inr v \<Rightarrow> Inr v),
      pformat = (\<lambda>j. ''<json>''),
      json_decode = canned_json_decode,
      read_json = (\<lambda>t. if startswith t ''['' then Inr t
                         else Inl (ValueError ''Expected object or value'')),
      to_format = (\<lambda>name df path kw. Inr df)\<rparr>"

definition ok_response :: response where
  \<open>ok_response =
     \<lparr>status_code = 200, reason = ''OK'', url = [], text_body = ''{"id":1,"name":"a"}''\<rparr>\<close>

text \<open>Two more answers of the server, and two command lines as \<^verbatim>\<open>vars(args)\<close>.\<close>

definition moved_response :: response where
  "moved_response =
     \<lparr>status_code = 301, reason = ''Moved Permanently'', url = [], text_body = []\<rparr>"

definition missing_response :: response where
  "missing_response =
     \<lparr>status_code = 404, reason = ''Not Found'', url = [], text_body = ''{}''\<rparr>"

definition get_to_file :: payload where
  "get_to_file =
     \<lparr>request_method = Get, endpoint = ''posts/1'', data = None, output_path = Some ''out.json''\<rparr>"

definition post_title :: payload where
  \<open>post_title =
     \<lparr>request_method = Post, endpoint = ''posts'', data = Some ''{"title": "foo"}'', output_path = None\<rparr>\<close>

section \<open>Properties\<close>

subsection \<open>Strings and the extension split\<close>

text \<open>\<^verbatim>\<open>str(n)\<close> is never empty, so \<^verbatim>\<open>str(n)[0]\<close> never raises.\<close>

lemma str_nat_nonempty: "str_nat n \<noteq> []"
  by (subst str_nat.simps) simp

lemma str_int_nonempty: "str_int i \<noteq> []"
  by (simp add: str_int_def str_nat_nonempty)

text \<open>The two one-character tests of the constructor.\<close>

lemma startswith_char: "startswith s [c] = (s \<noteq> [] \<and> hd s = c)"
  by (cases s) (simp_all add: startswith_def)

lemma endswith_char: "endswith s [c] = (s \<noteq> [] \<and> last s = c)"
proof (cases s rule: rev_cases)
  case Nil
  then show ?thesis by (simp add: endswith_def)
next
  case (snoc ys y)
  then show ?thesis by (simp add: endswith_def)
qed

text \<open>
  The split at the last dot: a path \<open>name.ext\<close> with no dot in \<open>ext\<close> splits into \<open>name\<close>
  and \<open>ext\<close>, and every path with a dot has that form.
\<close>

lemma rsplit_dot_no_dot: "CHR ''.'' \<notin> set s \<Longrightarrow> rsplit_dot s = [s]"
  by (simp add: rsplit_dot_def)

lemma rsplit_dot_ext:
  assumes "CHR ''.'' \<notin> set ext"
  shows "rsplit_dot (name @ ''.'' @ ext) = [name, ext]"
proof -
  let ?P = "\<lambda>c. c \<noteq> CHR ''.''"
  have r: "rev (name @ ''.'' @ ext) = rev ext @ CHR ''.'' # rev name"
    by simp
  have all: "\<forall>c \<in> set (rev ext). ?P c"
    using assms by auto
  have tw: "takeWhile ?P (rev ext @ CHR ''.'' # rev name) = rev ext"
    using all by (subst takeWhile_append2) auto
  have dw: "dropWhile ?P (rev ext @ CHR ''.'' # rev name) = CHR ''.'' # rev name"
    using all by (subst dropWhile_append2) auto
  show ?thesis
    unfolding rsplit_dot_def r tw dw by simp
qed

lemma rsplit_dot_join:
  assumes "CHR ''.'' \<in> set s"
  shows "\<exists>name ext. s = name @ ''.'' @ ext \<and> CHR ''.'' \<notin> set ext"
proof -
  from assms obtain ys zs where "s = ys @ CHR ''.'' # zs" and "CHR ''.'' \<notin> set zs"
    by (meson split_list_last)
  then show ?thesis by auto
qed

text \<open>For a three-digit status code, the first character is \<^verbatim>\<open>2\<close> exactly in 200..299.\<close>

lemma leading_digit_2xx:
  assumes "100 \<le> c" and "c \<le> 999"
  shows "(hd (str_int c) = CHR ''2'') = (200 \<le> c \<and> c \<le> 299)"
proof -
  define n where "n = nat c"
  have n: "100 \<le> n" "n \<le> 999" using assms by (simp_all add: n_def)
  have s1: "str_nat n = str_nat (n div 10) @ [digit_char (n mod 10)]"
    using n by (subst str_nat.simps) simp
  have d: "n div 10 div 10 = n div 100"
    by (simp add: div_mult2_eq[symmetric])
  have big: "\<not> n div 10 < 10"
    using n by simp
  have s2: "str_nat (n div 10) = str_nat (n div 100) @ [digit_char (n div 10 mod 10)]"
    using big d by (subst str_nat.simps) simp
  have small: "n div 100 < 10"
    using n by simp
  have s3: "str_nat (n div 100) = [digit_char (n div 100)]"
    using small by (subst str_nat.simps) simp
  have h: "hd (str_nat n) = digit_char (n div 100)"
    by (simp add: s1 s2 s3)
  have "n div 100 \<in> {1, 2, 3, 4, 5, 6, 7, 8, 9}"
    using n by auto
  then have "(hd (str_nat n) = CHR ''2'') = (n div 100 = 2)"
    unfolding h by (auto simp: digit_char_def)
  moreover have "(n div 100 = 2) = (200 \<le> c \<and> c \<le> 299)"
    using assms by (auto simp: n_def)
  ultimately show ?thesis using assms by (simp add: str_int_def n_def)
qed

subsection \<open>POST and its data\<close>

text \<open>
  C5. A POST whose data field is absent: whatever the endpoint and the libraries,
  \<^verbatim>\<open>post\<close> raises the script's own exception with the message
  \<^verbatim>\<open>Must required valid json data\<close> and its trace is empty, so no request is sent; the
  constructor prints that message and nothing else, and so does the whole program.
\<close>

theorem post_without_data:
  assumes "request_method p = Post" and "data p = None"
  shows "post E p u = ([], Inl (Exception ''Must required valid json data''))
       \<and> init E p = ([Print ''Must required valid json data''], None)
       \<and> (\<forall>argv. parse_args E argv = Inr p \<longrightarrow>
            main E argv = ([Print ''Must required valid json data''], 0))"
proof -
  have p: "post E p u = ([], Inl (Exception ''Must required valid json data''))" for u
    using assms by (simp add: post_def json_loads_def)
  have c: "call_method E p u = ([], Inl (Exception ''Must required valid json data''))" for u
    using assms p by (simp add: call_method_def)
  have i: "init E p = ([Print ''Must required valid json data''], None)"
    by (simp add: init_def c)
  show ?thesis
    using p i by (simp add: main_def)
qed

theorem post_without_data_witness:
  "request_method \<lparr>request_method = Post, endpoint = ''posts'', data = None, output_path = None\<rparr> = Post
   \<and> data \<lparr>request_method = Post, endpoint = ''posts'', data = None, output_path = None\<rparr> = None
   \<and> canned_parse_args [''post'', ''posts''] = Inr \<lparr>request_method = Post, endpoint = ''posts'', data = None, output_path = None\<rparr>
   \<and> post (canned_env ok_response) \<lparr>request_method = Post, endpoint = ''posts'', data = None, output_path = None\<rparr> ''u''
       = ([], Inl (Exception ''Must required valid json data''))
   \<and> main (canned_env ok_response) [''post'', ''posts''] = ([Print ''Must required valid json data''], 0)"
  using post_without_data [of "\<lparr>request_method = Post, endpoint = ''posts'', data = None, output_path = None\<rparr>"
      "canned_env ok_response" "''u''"]
  by (simp add: canned_env_def canned_parse_args_def positional_def)

text \<open>
  C10. A POST whose data field is present but is not valid JSON: the decoder's
  \<^verbatim>\<open>JSONDecodeError\<close> leaves \<^verbatim>\<open>post\<close> as it is, not replaced by the script's own
  message; the constructor catches it and prints its message, and no request is sent.
\<close>

theorem post_invalid_json_propagates:
  assumes "request_method p = Post" and "data p = Some s" and "json_decode E s = Inl m"
  shows "post E p u = ([], Inl (JSONDecodeError m))
       \<and> snd (post E p u) \<noteq> Inl (Exception ''Must required valid json data'')
       \<and> init E p = ([Print m], None)"
proof -
  have p: "post E p u = ([], Inl (JSONDecodeError m))" for u
    using assms by (simp add: post_def json_loads_def)
  have c: "call_method E p u = ([], Inl (JSONDecodeError m))" for u
    using assms p by (simp add: call_method_def)
  have i: "init E p = ([Print m], None)"
    by (simp add: init_def c)
  show ?thesis
    using p i by simp
qed

theorem post_invalid_json_propagates_witness:
  "request_method \<lparr>request_method = Post, endpoint = ''posts'', data = Some ''{title: foo}'', output_path = None\<rparr> = Post
   \<and> canned_json_decode ''{title: foo}'' = Inl ''Expecting value: line 1 column 1 (char 0)''
   \<and> post (canned_env ok_response)
        \<lparr>request_method = Post, endpoint = ''posts'', data = Some ''{title: foo}'', output_path = None\<rparr> ''u''
       = ([], Inl (JSONDecodeError ''Expecting value: line 1 column 1 (char 0)''))
   \<and> init (canned_env ok_response)
        \<lparr>request_method = Post, endpoint = ''posts'', data = Some ''{title: foo}'', output_path = None\<rparr>
       = ([Print ''Expecting value: line 1 column 1 (char 0)''], None)"
  using post_invalid_json_propagates [of
      "\<lparr>request_method = Post, endpoint = ''posts'', data = Some ''{title: foo}'', output_path = None\<rparr>"
      "''{title: foo}''" "canned_env ok_response" "''Expecting value: line 1 column 1 (char 0)''" "''u''"]
  by (simp add: canned_env_def canned_json_decode_def)

subsection \<open>Writer.save\<close>

lemma map_of_dump_params:
  "map_of dump_params ext =
     (if ext = ''json'' then Some [(''orient'', PStr ''records''), (''indent'', PInt 2)]
      else if ext = ''csv'' then Some [] else None)"
  by (simp add: dump_params_def)

text \<open>
  C9. An output path with no dot: \<^verbatim>\<open>rsplit\<close> gives one element, the two-name
  unpacking raises \<^verbatim>\<open>ValueError\<close>, and the format dispatch is never reached; \<^verbatim>\<open>save\<close>
  ends with an exception and an empty trace, so no file is written and no notice is
  printed. (When the text cannot be read as JSON, \<^verbatim>\<open>read_json\<close> has already raised.)
\<close>

theorem save_without_dot:
  assumes "CHR ''.'' \<notin> set out_file"
  shows "save E out_file txt =
           (case read_json E txt of
              Inl e \<Rightarrow> ([], Inl e)
            | Inr df \<Rightarrow> ([], Inl (ValueError ''not enough values to unpack (expected 2, got 1)'')))
       \<and> fst (save E out_file txt) = []
       \<and> (\<exists>e. snd (save E out_file txt) = Inl e)"
  using assms by (simp add: save_def rsplit_dot_no_dot split: sum.splits)

theorem save_without_dot_witness:
  "CHR ''.'' \<notin> set ''out''
   \<and> save (canned_env ok_response) ''out'' ''[]''
       = ([], Inl (ValueError ''not enough values to unpack (expected 2, got 1)''))"
  using save_without_dot [of "''out''" "canned_env ok_response" "''[]''"]
  by (simp add: canned_env_def startswith_def)

text \<open>
  C7. An output path \<open>name.ext\<close>, where \<open>ext\<close> is the part after the last dot, and a
  response text that \<^verbatim>\<open>read_json\<close> accepts. When \<open>ext\<close> is neither \<^verbatim>\<open>json\<close> nor
  \<^verbatim>\<open>csv\<close>, \<^verbatim>\<open>save\<close> prints the not-implemented notice and writes nothing. When it
  is \<^verbatim>\<open>json\<close> or \<^verbatim>\<open>csv\<close>, \<^verbatim>\<open>save\<close> calls \<^verbatim>\<open>to_json\<close> or \<^verbatim>\<open>to_csv\<close> on the path
  exactly as supplied, and unless that call raises the trace is one file written at
  that path.
\<close>

theorem save_extension_dispatch:
  assumes "read_json E txt = Inr df" and "CHR ''.'' \<notin> set ext"
  shows "(ext \<noteq> ''json'' \<and> ext \<noteq> ''csv'' \<longrightarrow>
            save E (name @ ''.'' @ ext) txt = ([Print ''not implemented for .{ext}''], Inr ()))
       \<and> (ext = ''json'' \<longrightarrow>
            save E (name @ ''.'' @ ext) txt =
              (case to_format E ''to_json'' df (name @ ''.'' @ ext)
                      [(''index'', PBool False), (''orient'', PStr ''records''), (''indent'', PInt 2)] of
                 Inl e \<Rightarrow> ([], Inl e)
               | Inr c \<Rightarrow> ([WriteFile (name @ ''.'' @ ext) c], Inr ())))
       \<and> (ext = ''csv'' \<longrightarrow>
            save E (name @ ''.'' @ ext) txt =
              (case to_format E ''to_csv'' df (name @ ''.'' @ ext) [(''index'', PBool False)] of
                 Inl e \<Rightarrow> ([], Inl e)
               | Inr c \<Rightarrow> ([WriteFile (name @ ''.'' @ ext) c], Inr ())))"
proof -
  define path where "path = name @ ''.'' @ ext"
  have split: "rsplit_dot (name @ ''.'' @ ext) = [name, ext]"
    using assms(2) by (rule rsplit_dot_ext)
  have gen: "save E path txt =
      (case map_of dump_params ext of
         Some kw \<Rightarrow>
           (case to_format E (''to_'' @ ext) df path ((''index'', PBool False) # kw) of
              Inl e \<Rightarrow> ([], Inl e)
            | Inr c \<Rightarrow> ([WriteFile path c], Inr ()))
       | None \<Rightarrow> ([Print ''not implemented for .{ext}''], Inr ()))"
    unfolding save_def assms(1) split path_def by (simp only: sum.case list.case)
  have other: "save E path txt = ([Print ''not implemented for .{ext}''], Inr ())"
    if "ext \<noteq> ''json''" and "ext \<noteq> ''csv''"
    using that by (simp add: gen map_of_dump_params)
  have json: "save E path txt =
      (case to_format E ''to_json'' df path
              [(''index'', PBool False), (''orient'', PStr ''records''), (''indent'', PInt 2)] of
         Inl e \<Rightarrow> ([], Inl e)
       | Inr c \<Rightarrow> ([WriteFile path c], Inr ()))"
    if "ext = ''json''"
    using that by (simp add: gen map_of_dump_params)
  have csv: "save E path txt =
      (case to_format E ''to_csv'' df path [(''index'', PBool False)] of
         Inl e \<Rightarrow> ([], Inl e)
       | Inr c \<Rightarrow> ([WriteFile path c], Inr ()))"
    if "ext = ''csv''"
    using that by (simp add: gen map_of_dump_params)
  from other json csv show ?thesis
    unfolding path_def by blast
qed

theorem save_extension_dispatch_witness:
  "read_json (canned_env ok_response) ''[]'' = Inr ''[]''
   \<and> CHR ''.'' \<notin> set ''json'' \<and> CHR ''.'' \<notin> set ''csv'' \<and> CHR ''.'' \<notin> set ''xml''
   \<and> save (canned_env ok_response) ''out.json'' ''[]'' = ([WriteFile ''out.json'' ''[]''], Inr ())
   \<and> save (canned_env ok_response) ''out.csv'' ''[]'' = ([WriteFile ''out.csv'' ''[]''], Inr ())
   \<and> save (canned_env ok_response) ''out.xml'' ''[]'' = ([Print ''not implemented for .{ext}''], Inr ())"
  using save_extension_dispatch [of "canned_env ok_response" "''[]''" "''[]''" "''json''" "''out''"]
    save_extension_dispatch [of "canned_env ok_response" "''[]''" "''[]''" "''csv''" "''out''"]
    save_extension_dispatch [of "canned_env ok_response" "''[]''" "''[]''" "''xml''" "''out''"]
  by (simp add: canned_env_def startswith_def)

subsection \<open>The response handler\<close>

lemma call_method_no_write:
  assumes "call_method E p u = (t, x)"
  shows "WriteFile f c \<notin> set t"
  using assms
  by (auto simp: call_method_def get_def post_def split: http_method.splits sum.splits exn.splits)

lemma leading_char:
  obtains cs where "str_int i = hd (str_int i) # cs"
  using str_int_nonempty [of i] by (cases "str_int i") auto

text \<open>
  C6. A response that \<^verbatim>\<open>raise_for_status\<close> accepts, whose status code starts with
  \<^verbatim>\<open>2\<close>, and a non-empty output path: the constructor hands \<^verbatim>\<open>save\<close> the path and
  the text \<^verbatim>\<open>res_text\<close>. That text is the raw text between square brackets exactly when
  the raw text starts with \<^verbatim>\<open>{\<close> and ends with \<^verbatim>\<open>}\<close>; otherwise it is the raw text
  unchanged.
\<close>

theorem success_output_wraps_object:
  assumes "call_method E p (domain @ ''/'' @ endpoint p) = (t1, Inr r)"
    and "raise_for_status E r = None"
    and "hd (str_int (status_code r)) = CHR ''2''"
    and "output_path p = Some out" and "out \<noteq> []"
  shows "init E p =
           (t1 @ Print (''status_code: '' @ str_int (status_code r)) # fst (save E out (res_text r)),
            case snd (save E out (res_text r)) of Inl e \<Rightarrow> Some e | Inr u \<Rightarrow> None)
       \<and> (res_text r = ''['' @ text_body r @ '']'')
           = (text_body r \<noteq> [] \<and> hd (text_body r) = CHR ''{'' \<and> last (text_body r) = CHR ''}'')
       \<and> (res_text r \<noteq> ''['' @ text_body r @ '']'' \<longrightarrow> res_text r = text_body r)"
proof -
  obtain cs where lead: "str_int (status_code r) = CHR ''2'' # cs"
    using leading_char [of "status_code r"] assms(3) by metis
  obtain t3 res where sv: "save E out (res_text r) = (t3, res)"
    by (cases "save E out (res_text r)")
  have run: "init E p =
      (t1 @ Print (''status_code: '' @ str_int (status_code r)) # t3,
       case res of Inl e \<Rightarrow> Some e | Inr u \<Rightarrow> None)"
    unfolding init_def Let_def assms(1)
    by (simp add: assms(2) assms(4) assms(5) lead sv split: sum.splits)
  have wrap: "(res_text r = ''['' @ text_body r @ '']'')
           = (text_body r \<noteq> [] \<and> hd (text_body r) = CHR ''{'' \<and> last (text_body r) = CHR ''}'')"
    by (auto simp: res_text_def startswith_char endswith_char)
  have keep: "res_text r \<noteq> ''['' @ text_body r @ '']'' \<longrightarrow> res_text r = text_body r"
    by (simp add: res_text_def)
  from run wrap keep show ?thesis
    by (simp add: sv)
qed

theorem success_output_wraps_object_witness:
  \<open>call_method (canned_env ok_response) get_to_file (domain @ ''/'' @ endpoint get_to_file)
     = ([RequestsGet ''https://jsonplaceholder.typicode.com/posts/1''],
        Inr (ok_response\<lparr>url := ''https://jsonplaceholder.typicode.com/posts/1''\<rparr>))
   \<and> raise_for_status (canned_env ok_response)
        (ok_response\<lparr>url := ''https://jsonplaceholder.typicode.com/posts/1''\<rparr>) = None
   \<and> hd (str_int (status_code (ok_response\<lparr>url := ''https://jsonplaceholder.typicode.com/posts/1''\<rparr>)))
       = CHR ''2''
   \<and> output_path get_to_file = Some ''out.json''
   \<and> res_text (ok_response\<lparr>url := ''https://jsonplaceholder.typicode.com/posts/1''\<rparr>)
       = ''[{"id":1,"name":"a"}]''
   \<and> init (canned_env ok_response) get_to_file
       = ([RequestsGet ''https://jsonplaceholder.typicode.com/posts/1'',
           Print ''status_code: 200'',
           WriteFile ''out.json'' ''[{"id":1,"name":"a"}]''], None)\<close>
  using success_output_wraps_object [of "canned_env ok_response" get_to_file
      "[RequestsGet ''https://jsonplaceholder.typicode.com/posts/1'']"
      "ok_response\<lparr>url := ''https://jsonplaceholder.typicode.com/posts/1''\<rparr>" "''out.json''"]
  by (simp add: canned_env_def ok_response_def get_to_file_def call_method_def get_def domain_def
      requests_raise_for_status_def str_int_def str_nat.simps digit_char_def res_text_def
      startswith_def endswith_def save_def rsplit_dot_def dump_params_def)

text \<open>
  C1, as amended. A response whose status code does not start with \<^verbatim>\<open>2\<close>: the program
  prints the status line and then one failure message, and ends with no file written;
  \<^verbatim>\<open>save\<close> is not called, even when an output path was given. The failure is the
  exception of \<^verbatim>\<open>raise_for_status\<close> when it raises one, printed by the constructor;
  otherwise it is the script's own exception with the fixed message
  \<^verbatim>\<open>Can't process non-success(2xx) request\<close>, which leaves the constructor and is
  printed by \<^verbatim>\<open>main\<close>.
\<close>

theorem non_success_status_skips_writer:
  assumes "parse_args E argv = Inr p"
    and "call_method E p (domain @ ''/'' @ endpoint p) = (t1, Inr r)"
    and "hd (str_int (status_code r)) \<noteq> CHR ''2''"
  shows "init E p =
           (case raise_for_status E r of
              Some e \<Rightarrow>
                (t1 @ [Print (''status_code: '' @ str_int (status_code r)), Print (str_exn e)], None)
            | None \<Rightarrow>
                (t1 @ [Print (''status_code: '' @ str_int (status_code r))],
                 Some (Exception ''Can't process non-success(2xx) request'')))
       \<and> main E argv =
           (t1 @ [Print (''status_code: '' @ str_int (status_code r)),
                  Print (case raise_for_status E r of
                           Some e \<Rightarrow> str_exn e
                         | None \<Rightarrow> ''Can't process non-success(2xx) request'')], 0)
       \<and> (\<forall>f c. WriteFile f c \<notin> set (fst (main E argv)))"
proof -
  obtain c cs where lead: "str_int (status_code r) = c # cs" and c: "c \<noteq> CHR ''2''"
    using leading_char [of "status_code r"] assms(3) by metis
  have run: "init E p =
           (case raise_for_status E r of
              Some e \<Rightarrow>
                (t1 @ [Print (''status_code: '' @ str_int (status_code r)), Print (str_exn e)], None)
            | None \<Rightarrow>
                (t1 @ [Print (''status_code: '' @ str_int (status_code r))],
                 Some (Exception ''Can't process non-success(2xx) request'')))"
    unfolding init_def Let_def assms(2)
    by (simp add: lead c split: option.splits)
  have prog: "main E argv =
           (t1 @ [Print (''status_code: '' @ str_int (status_code r)),
                  Print (case raise_for_status E r of
                           Some e \<Rightarrow> str_exn e
                         | None \<Rightarrow> ''Can't process non-success(2xx) request'')], 0)"
    by (simp add: main_def assms(1) run split: option.splits)
  have "WriteFile f c \<notin> set (fst (main E argv))" for f c
    using call_method_no_write [OF assms(2), of f c] by (simp add: prog)
  with run prog show ?thesis
    by blast
qed

theorem non_success_status_skips_writer_witness:
  "parse_args (canned_env missing_response) [''get'', ''posts/1'', ''-o'', ''out.json''] = Inr get_to_file
   \<and> call_method (canned_env missing_response) get_to_file (domain @ ''/'' @ endpoint get_to_file)
     = ([RequestsGet ''https://jsonplaceholder.typicode.com/posts/1''],
        Inr (missing_response\<lparr>url := ''https://jsonplaceholder.typicode.com/posts/1''\<rparr>))
   \<and> hd (str_int (status_code (missing_response\<lparr>url := ''https://jsonplaceholder.typicode.com/posts/1''\<rparr>)))
       \<noteq> CHR ''2''
   \<and> main (canned_env missing_response) [''get'', ''posts/1'', ''-o'', ''out.json'']
       = ([RequestsGet ''https://jsonplaceholder.typicode.com/posts/1'',
           Print ''status_code: 404'',
           Print ''404 Client Error: Not Found for url: https://jsonplaceholder.typicode.com/posts/1''], 0)"
  using non_success_status_skips_writer [of "canned_env missing_response"
      "[''get'', ''posts/1'', ''-o'', ''out.json'']" get_to_file
      "[RequestsGet ''https://jsonplaceholder.typicode.com/posts/1'']"
      "missing_response\<lparr>url := ''https://jsonplaceholder.typicode.com/posts/1''\<rparr>"]
  by (simp add: canned_env_def missing_response_def get_to_file_def call_method_def get_def
      domain_def canned_parse_args_def positional_def requests_raise_for_status_def
      str_int_def str_nat.simps digit_char_def)

text \<open>
  C1, as stated, asks for an error that carries the status code. For the status 301
  \<^verbatim>\<open>raise_for_status\<close> raises nothing, and the exception that ends the run has the fixed
  message, in which the status code does not occur.
\<close>

theorem non_success_error_without_status_code:
  "hd (str_int (status_code moved_response)) \<noteq> CHR ''2''
   \<and> init (canned_env moved_response) get_to_file
       = ([RequestsGet ''https://jsonplaceholder.typicode.com/posts/1'', Print ''status_code: 301''],
          Some (Exception ''Can't process non-success(2xx) request''))
   \<and> CHR ''3'' \<in> set (str_int (status_code moved_response))
   \<and> CHR ''3'' \<notin> set (str_exn (Exception ''Can't process non-success(2xx) request''))"
  by (simp add: init_def canned_env_def moved_response_def get_to_file_def call_method_def get_def
      domain_def requests_raise_for_status_def str_int_def str_nat.simps digit_char_def)

subsection \<open>Exit status and request body\<close>

text \<open>Every path through \<^verbatim>\<open>main\<close> ends the function normally.\<close>

lemma main_exit_status: "snd (main E argv) = 0"
  by (simp add: main_def split: sum.splits prod.splits option.splits)

text \<open>
  C4. A command line that argparse rejects (here an unknown method): the usage text and
  the \<^verbatim>\<open>ExitCode:2\<close> line with the hint are printed, but \<^verbatim>\<open>main\<close> catches the
  \<^verbatim>\<open>SystemExit\<close> and returns, so the exit status of the process is 0.
\<close>

theorem argument_error_exit_status:
  "main (canned_env ok_response) [''put'', ''posts'']
     = ([Usage ''usage: restful.py [-h] [-d DATA] [-o OUTPUT] {get,post} endpoint'',
         Print ''ExitCode:2    (-h for more info)''], 0)"
  by (simp add: main_def canned_env_def canned_parse_args_def positional_def usage_error_def
      str_int_def str_nat.simps digit_char_def)

text \<open>What \<^verbatim>\<open>post\<close> sends for valid JSON: the decoded value, as the keyword \<^verbatim>\<open>data\<close>.\<close>

lemma post_valid_json:
  assumes "data p = Some s" and "json_decode E s = Inr v"
  shows "post E p u = ([RequestsPost u [(''data'', v)]], requests_post E u [(''data'', v)])"
  using assms by (simp add: post_def json_loads_def)

text \<open>
  C3. A POST with the data string \<^verbatim>\<open>{"title": "foo"}\<close>: the string is decoded and the
  request goes to the fixed domain and the endpoint, but the decoded dictionary is
  passed as \<^verbatim>\<open>data=\<close>, the argument that requests form-encodes, not as \<^verbatim>\<open>json=\<close>.
\<close>

theorem post_passes_decoded_value_as_data:
  \<open>post (canned_env ok_response) post_title (domain @ ''/'' @ endpoint post_title)
     = ([RequestsPost ''https://jsonplaceholder.typicode.com/posts''
           [(''data'', JDict [(''title'', JStr ''foo'')])]],
        Inr (ok_response\<lparr>url := ''https://jsonplaceholder.typicode.com/posts''\<rparr>))\<close>
  by (simp add: post_def json_loads_def canned_env_def canned_json_decode_def post_title_def
      domain_def)

end
